theory Spec2Isabelle
  imports Complex_Main "HOL-Library.Monad_Syntax"
begin

section \<open>The random source\<close>

text \<open>
  The simulators of \<^verbatim>\<open>server/quantumSim.ts\<close> draw from \<^verbatim>\<open>Math.random()\<close>. The
  embedding makes the source explicit: a sequence of draws and the number of draws taken so
  far. Every property below is stated for an arbitrary sequence.
\<close>

type_synonym rand = "nat \<Rightarrow> real"

section \<open>Bell and GHZ samplers\<close>

record BellOutcomeCounts =
  c00 :: int
  c01 :: int
  c10 :: int
  c11 :: int

record GhzOutcomeCounts =
  c000 :: int
  c001 :: int
  c010 :: int
  c011 :: int
  c100 :: int
  c101 :: int
  c110 :: int
  c111 :: int

text \<open>
  \<^verbatim>\<open>for (let i = 0; i < shots; i++) { Math.random() < 0.5 ? counts['00']++ : counts['11']++ }\<close>
  The loop index \<open>i\<close> counts from 0; each pass takes exactly one draw, so the \<open>i\<close>-th pass
  reads draw number \<open>i\<close>.
\<close>

function simulateBell_loop :: "rand \<Rightarrow> int \<Rightarrow> nat \<Rightarrow> BellOutcomeCounts \<Rightarrow> BellOutcomeCounts" where
  "simulateBell_loop rnd shots i counts =
     (if int i < shots
      then simulateBell_loop rnd shots (Suc i)
             (if rnd i < 0.5 then counts\<lparr>c00 := c00 counts + 1\<rparr>
              else counts\<lparr>c11 := c11 counts + 1\<rparr>)
      else counts)"
  by pat_completeness auto
termination
  by (relation "measure (\<lambda>(rnd, shots, i, counts). nat (shots - int i))") auto

definition simulateBell :: "rand \<Rightarrow> int \<Rightarrow> BellOutcomeCounts" where
  "simulateBell rnd shots =
     simulateBell_loop rnd shots 0 \<lparr>c00 = 0, c01 = 0, c10 = 0, c11 = 0\<rparr>"

function simulateGhz_loop :: "rand \<Rightarrow> int \<Rightarrow> nat \<Rightarrow> GhzOutcomeCounts \<Rightarrow> GhzOutcomeCounts" where
  "simulateGhz_loop rnd shots i counts =
     (if int i < shots
      then simulateGhz_loop rnd shots (Suc i)
             (if rnd i < 0.5 then counts\<lparr>c000 := c000 counts + 1\<rparr>
              else counts\<lparr>c111 := c111 counts + 1\<rparr>)
      else counts)"
  by pat_completeness auto
termination
  by (relation "measure (\<lambda>(rnd, shots, i, counts). nat (shots - int i))") auto

definition simulateGhz :: "rand \<Rightarrow> int \<Rightarrow> GhzOutcomeCounts" where
  "simulateGhz rnd shots =
     simulateGhz_loop rnd shots 0
       \<lparr>c000 = 0, c001 = 0, c010 = 0, c011 = 0, c100 = 0, c101 = 0, c110 = 0, c111 = 0\<rparr>"

section \<open>BB84\<close>

datatype Basis = Z | X

text \<open>\<^verbatim>\<open>randomBit\<close> and \<^verbatim>\<open>randomBasis\<close> take one draw each and return the next position.\<close>

definition randomBit :: "rand \<Rightarrow> nat \<Rightarrow> nat \<times> nat" where
  "randomBit rnd k = (if rnd k < 0.5 then 0 else 1, Suc k)"

definition randomBasis :: "rand \<Rightarrow> nat \<Rightarrow> Basis \<times> nat" where
  "randomBasis rnd k = (if rnd k < 0.5 then Z else X, Suc k)"

record Bb84RunConfig =
  rounds :: int
  withEve :: bool

text \<open>The field \<^verbatim>\<open>eveBasis: 'Z' | 'X' | '-'\<close> is an optional basis: \<open>None\<close> is \<^verbatim>\<open>'-'\<close>.\<close>

record Bb84TraceRow =
  row_id :: int
  aliceBit :: nat
  aliceBasis :: Basis
  eveBasis :: "Basis option"
  bobBasis :: Basis
  bobBit :: nat
  keep :: bool
  error :: bool

record Bb84RunSummary =
  sum_rounds :: int
  siftedKeyLength :: nat
  errorRate :: real
  trace :: "Bb84TraceRow list"

text \<open>The loop's variables: the draws taken, \<^verbatim>\<open>sifted\<close>, \<^verbatim>\<open>errors\<close> and \<^verbatim>\<open>trace\<close>.\<close>

record bb84_vars =
  drawn :: nat
  sifted :: nat
  errors :: nat
  rows :: "Bb84TraceRow list"

text \<open>One pass of the body of the loop of \<^verbatim>\<open>runBb84\<close>, for round index \<open>i\<close>.\<close>

definition bb84_round :: "rand \<Rightarrow> bool \<Rightarrow> nat \<Rightarrow> bb84_vars \<Rightarrow> bb84_vars" where
  "bb84_round rnd eve i s =
     (let (aBit, k1) = randomBit rnd (drawn s);
          (aBasis, k2) = randomBasis rnd k1;
          (transmittedBit, transmittedBasis, eveBasisUsed, k3) =
            (if eve then
               (let (eBasis, k) = randomBasis rnd k2 in
                if eBasis \<noteq> aBasis
                then (let (b, k') = randomBit rnd k in (b, eBasis, Some eBasis, k'))
                else (aBit, aBasis, Some eBasis, k))
             else (aBit, aBasis, None, k2));
          (bBasis, k4) = randomBasis rnd k3;
          (bobResult, k5) =
            (if bBasis = transmittedBasis then (transmittedBit, k4) else randomBit rnd k4);
          isMatch = (aBasis = bBasis);
          isError = (isMatch \<and> bobResult \<noteq> aBit);
          sifted' = (if isMatch then Suc (sifted s) else sifted s);
          errors' = (if isMatch \<and> isError then Suc (errors s) else errors s);
          rows' = (if i < 50
                   then rows s @ [\<lparr>row_id = int i + 1, aliceBit = aBit, aliceBasis = aBasis,
                                   eveBasis = eveBasisUsed, bobBasis = bBasis, bobBit = bobResult,
                                   keep = isMatch, error = isError\<rparr>]
                   else rows s)
      in \<lparr>drawn = k5, sifted = sifted', errors = errors', rows = rows'\<rparr>)"

function bb84_loop :: "rand \<Rightarrow> bool \<Rightarrow> int \<Rightarrow> nat \<Rightarrow> bb84_vars \<Rightarrow> bb84_vars" where
  "bb84_loop rnd eve n i s =
     (if int i < n then bb84_loop rnd eve n (Suc i) (bb84_round rnd eve i s) else s)"
  by pat_completeness auto
termination
  by (relation "measure (\<lambda>(rnd, eve, n, i, s). nat (n - int i))") auto

definition bb84_run :: "rand \<Rightarrow> Bb84RunConfig \<Rightarrow> bb84_vars" where
  "bb84_run rnd config =
     bb84_loop rnd (withEve config) (rounds config) 0
       \<lparr>drawn = 0, sifted = 0, errors = 0, rows = []\<rparr>"

definition runBb84 :: "rand \<Rightarrow> Bb84RunConfig \<Rightarrow> Bb84RunSummary" where
  "runBb84 rnd config =
     (let s = bb84_run rnd config in
      \<lparr>sum_rounds = rounds config,
       siftedKeyLength = sifted s,
       errorRate = (if sifted s > 0 then real (errors s) / real (sifted s) else 0),
       trace = rows s\<rparr>)"

section \<open>Numbers of the Bloch-vector code\<close>

text \<open>
  The TypeScript type \<^verbatim>\<open>number\<close> is an IEEE double. The claims about the stepper speak of
  \<^verbatim>\<open>NaN\<close> and \<^verbatim>\<open>\<plusminus>Infinity\<close>, so the embedding keeps them as values of their own beside
  the finite numbers, with the IEEE rules for every operation that meets one of them.
  Arithmetic on finite numbers is exact real arithmetic: rounding, overflow of a finite
  result to \<^verbatim>\<open>Infinity\<close> and the sign of zero are not modelled.
\<close>

datatype jsnum = Fin real | PInf | NInf | NaN

instantiation jsnum :: "{plus, minus, uminus, times, inverse, ord}"
begin

fun uminus_jsnum :: "jsnum \<Rightarrow> jsnum" where
  "uminus_jsnum (Fin a) = Fin (- a)"
| "uminus_jsnum PInf = NInf"
| "uminus_jsnum NInf = PInf"
| "uminus_jsnum NaN = NaN"

fun plus_jsnum :: "jsnum \<Rightarrow> jsnum \<Rightarrow> jsnum" where
  "plus_jsnum (Fin a) (Fin b) = Fin (a + b)"
| "plus_jsnum NaN _ = NaN"
| "plus_jsnum _ NaN = NaN"
| "plus_jsnum PInf NInf = NaN"
| "plus_jsnum NInf PInf = NaN"
| "plus_jsnum PInf _ = PInf"
| "plus_jsnum _ PInf = PInf"
| "plus_jsnum NInf _ = NInf"
| "plus_jsnum _ NInf = NInf"

definition minus_jsnum :: "jsnum \<Rightarrow> jsnum \<Rightarrow> jsnum" where
  "minus_jsnum a b = a + (- b)"

text \<open>The sign of a non-NaN number: \<open>-1\<close>, \<open>0\<close> or \<open>1\<close>.\<close>

fun times_jsnum :: "jsnum \<Rightarrow> jsnum \<Rightarrow> jsnum" where
  "times_jsnum (Fin a) (Fin b) = Fin (a * b)"
| "times_jsnum NaN _ = NaN"
| "times_jsnum _ NaN = NaN"
| "times_jsnum (Fin a) PInf = (if a = 0 then NaN else if 0 < a then PInf else NInf)"
| "times_jsnum (Fin a) NInf = (if a = 0 then NaN else if 0 < a then NInf else PInf)"
| "times_jsnum PInf (Fin b) = (if b = 0 then NaN else if 0 < b then PInf else NInf)"
| "times_jsnum NInf (Fin b) = (if b = 0 then NaN else if 0 < b then NInf else PInf)"
| "times_jsnum PInf PInf = PInf"
| "times_jsnum NInf NInf = PInf"
| "times_jsnum PInf NInf = NInf"
| "times_jsnum NInf PInf = NInf"

text \<open>
  Division. A finite non-zero number divided by zero is an infinity whose sign depends on
  the sign of the zero; the embedding takes the zero as \<open>+0\<close>. Every division of the
  modelled code has a divisor that was tested to be greater than 0 or 1, or is the literal 2.
\<close>

fun inverse_jsnum :: "jsnum \<Rightarrow> jsnum" where
  "inverse_jsnum (Fin a) = (if a = 0 then PInf else Fin (inverse a))"
| "inverse_jsnum PInf = Fin 0"
| "inverse_jsnum NInf = Fin 0"
| "inverse_jsnum NaN = NaN"

fun divide_jsnum :: "jsnum \<Rightarrow> jsnum \<Rightarrow> jsnum" where
  "divide_jsnum (Fin a) (Fin b) =
     (if b \<noteq> 0 then Fin (a / b) else if a = 0 then NaN else if 0 < a then PInf else NInf)"
| "divide_jsnum NaN _ = NaN"
| "divide_jsnum _ NaN = NaN"
| "divide_jsnum (Fin a) PInf = Fin 0"
| "divide_jsnum (Fin a) NInf = Fin 0"
| "divide_jsnum PInf (Fin b) = (if 0 \<le> b then PInf else NInf)"
| "divide_jsnum NInf (Fin b) = (if 0 \<le> b then NInf else PInf)"
| "divide_jsnum PInf PInf = NaN"
| "divide_jsnum PInf NInf = NaN"
| "divide_jsnum NInf PInf = NaN"
| "divide_jsnum NInf NInf = NaN"

text \<open>Comparisons: every comparison with \<^verbatim>\<open>NaN\<close> is false.\<close>

fun less_jsnum :: "jsnum \<Rightarrow> jsnum \<Rightarrow> bool" where
  "less_jsnum (Fin a) (Fin b) = (a < b)"
| "less_jsnum NaN _ = False"
| "less_jsnum _ NaN = False"
| "less_jsnum NInf NInf = False"
| "less_jsnum NInf _ = True"
| "less_jsnum _ NInf = False"
| "less_jsnum PInf _ = False"
| "less_jsnum _ PInf = True"

fun less_eq_jsnum :: "jsnum \<Rightarrow> jsnum \<Rightarrow> bool" where
  "less_eq_jsnum (Fin a) (Fin b) = (a \<le> b)"
| "less_eq_jsnum NaN _ = False"
| "less_eq_jsnum _ NaN = False"
| "less_eq_jsnum NInf _ = True"
| "less_eq_jsnum _ NInf = False"
| "less_eq_jsnum PInf PInf = True"
| "less_eq_jsnum PInf _ = False"
| "less_eq_jsnum _ PInf = True"

instance ..

end

text \<open>\<^verbatim>\<open>Math.cos\<close>, \<^verbatim>\<open>Math.sin\<close>, \<^verbatim>\<open>Math.exp\<close>, \<^verbatim>\<open>Math.sqrt\<close>.\<close>

fun jcos :: "jsnum \<Rightarrow> jsnum" where
  "jcos (Fin a) = Fin (cos a)"
| "jcos _ = NaN"

fun jsin :: "jsnum \<Rightarrow> jsnum" where
  "jsin (Fin a) = Fin (sin a)"
| "jsin _ = NaN"

fun jexp :: "jsnum \<Rightarrow> jsnum" where
  "jexp (Fin a) = Fin (exp a)"
| "jexp PInf = PInf"
| "jexp NInf = Fin 0"
| "jexp NaN = NaN"

fun jsqrt :: "jsnum \<Rightarrow> jsnum" where
  "jsqrt (Fin a) = (if a < 0 then NaN else Fin (sqrt a))"
| "jsqrt PInf = PInf"
| "jsqrt NInf = NaN"
| "jsqrt NaN = NaN"

text \<open>A number is falsy when it is \<^verbatim>\<open>NaN\<close> or zero: \<^verbatim>\<open>a || b\<close> is \<open>a\<close> unless \<open>a\<close> is falsy.\<close>

fun truthy :: "jsnum \<Rightarrow> bool" where
  "truthy (Fin a) = (a \<noteq> 0)"
| "truthy NaN = False"
| "truthy _ = True"

definition or_else :: "jsnum \<Rightarrow> jsnum \<Rightarrow> jsnum" where
  "or_else a b = (if truthy a then a else b)"

fun isFinite :: "jsnum \<Rightarrow> bool" where
  "isFinite (Fin a) = True"
| "isFinite _ = False"

fun isNaN :: "jsnum \<Rightarrow> bool" where
  "isNaN NaN = True"
| "isNaN _ = False"

section \<open>The noise stepper\<close>

record BlochVector =
  vx :: jsnum
  vy :: jsnum
  vz :: jsnum

record NoiseParams =
  depolarizing :: jsnum
  phaseFlip :: jsnum
  bitFlip :: jsnum
  amplitudeDamping :: jsnum
  speed :: jsnum

definition BASE_DT :: jsnum where
  "BASE_DT = Fin 0.01"

text \<open>
  \<^verbatim>\<open>applyNoiseStep\<close> of \<^verbatim>\<open>src/hooks/useBlochState.ts\<close>, statement by statement. The
  variables \<open>x\<close>, \<open>y\<close>, \<open>z\<close> of the source are reassigned; each \<^verbatim>\<open>if\<close> returns the
  triple after it.
\<close>

definition applyNoiseStep :: "BlochVector \<Rightarrow> NoiseParams \<Rightarrow> jsnum \<Rightarrow> BlochVector" where
  "applyNoiseStep v noise dt =
     (let x = vx v; y = vy v; z = vz v;
          rateMultiplier = or_else (speed noise) (Fin 1);
          omega = Fin 5 * rateMultiplier;
          theta = omega * dt;
          cosT = jcos theta;
          sinT = jsin theta;
          xPre = x * cosT - y * sinT;
          yPre = x * sinT + y * cosT;
          x = xPre; y = yPre;
          (x, y, z) =
            (if Fin 0 < depolarizing noise then
               (let gammaDep = depolarizing noise * Fin 2 * rateMultiplier;
                    factor = jexp (- gammaDep * dt)
                in (x * factor, y * factor, z * factor))
             else (x, y, z));
          (x, y, z) =
            (if Fin 0 < amplitudeDamping noise then
               (let gamma1 = amplitudeDamping noise * Fin 1.5 * rateMultiplier;
                    factorXY = jexp (- gamma1 * dt / Fin 2);
                    factorZ = jexp (- gamma1 * dt)
                in (x * factorXY, y * factorXY, Fin 1 - (Fin 1 - z) * factorZ))
             else (x, y, z));
          (x, y, z) =
            (if Fin 0 < phaseFlip noise then
               (let gammaPhi = phaseFlip noise * Fin 3 * rateMultiplier;
                    factor = jexp (- gammaPhi * dt)
                in (x * factor, y * factor, z))
             else (x, y, z));
          (x, y, z) =
            (if Fin 0 < bitFlip noise then
               (let gammaX = bitFlip noise * Fin 2 * rateMultiplier;
                    factor = jexp (- gammaX * dt)
                in (x, y * factor, z * factor))
             else (x, y, z));
          r2 = x * x + y * y + z * z;
          (x, y, z) =
            (if Fin 1.000001 < r2 then
               (let r = jsqrt r2 in (x / r, y / r, z / r))
             else (x, y, z))
      in \<lparr>vx = or_else x (Fin 0), vy = or_else y (Fin 0), vz = or_else z (Fin 0)\<rparr>)"

text \<open>The squared length as the code computes it, and the length (\<^verbatim>\<open>Math.sqrt\<close> of it).\<close>

definition len2 :: "BlochVector \<Rightarrow> jsnum" where
  "len2 v = vx v * vx v + vy v * vy v + vz v * vz v"

definition blochLength :: "BlochVector \<Rightarrow> jsnum" where
  "blochLength v = jsqrt (len2 v)"

section \<open>The evolution scheduler\<close>

text \<open>
  The state of the hook \<^verbatim>\<open>useTimeEvolution\<close>: the React state (\<open>state\<close>, \<open>history\<close>,
  \<open>running\<close>) and the refs the callbacks read and write.
\<close>

record TimeEvolution =
  state :: BlochVector
  history :: "BlochVector list"
  running :: bool
  stateRef :: BlochVector
  historyRef :: "BlochVector list"
  noiseRef :: NoiseParams
  lastTsRef :: real

definition MAX_HISTORY :: nat where
  "MAX_HISTORY = 600"

text \<open>\<^verbatim>\<open>for (let i = 0; i < steps; i++) v = applyNoiseStep(v, noiseRef.current, BASE_DT)\<close>\<close>

primrec stepTimes :: "nat \<Rightarrow> NoiseParams \<Rightarrow> BlochVector \<Rightarrow> BlochVector" where
  "stepTimes 0 noise v = v"
| "stepTimes (Suc n) noise v = stepTimes n noise (applyNoiseStep v noise BASE_DT)"

text \<open>
  \<^verbatim>\<open>Math.max(1, Math.round(elapsed / BASE_DT))\<close> with
  \<^verbatim>\<open>elapsed = Math.min((ts - lastTs) / 1000, 0.05)\<close>; \<^verbatim>\<open>Math.round\<close> rounds half up.
  Time stamps are finite numbers.
\<close>

definition stepsFor :: "real \<Rightarrow> nat" where
  "stepsFor elapsed = nat (max 1 \<lfloor>elapsed / 0.01 + 1 / 2\<rfloor>)"

text \<open>\<^verbatim>\<open>xs.slice(-n)\<close>: the last \<open>n\<close> elements.\<close>

definition slice_last :: "nat \<Rightarrow> 'a list \<Rightarrow> 'a list" where
  "slice_last n xs = drop (length xs - n) xs"

text \<open>The frame callback \<^verbatim>\<open>loop(ts)\<close>.\<close>

definition loop :: "real \<Rightarrow> TimeEvolution \<Rightarrow> TimeEvolution" where
  "loop ts s =
     (let lastTs = (if lastTsRef s = 0 then ts else lastTsRef s);
          elapsed = min ((ts - lastTs) / 1000) 0.05;
          steps = stepsFor elapsed;
          v = stepTimes steps (noiseRef s) (stateRef s);
          h = slice_last MAX_HISTORY (historyRef s @ [v])
      in s\<lparr>lastTsRef := ts, stateRef := v, historyRef := h, state := v, history := h\<rparr>)"

definition resetTo :: "BlochVector \<Rightarrow> TimeEvolution \<Rightarrow> TimeEvolution" where
  "resetTo next s = s\<lparr>stateRef := next, historyRef := [next], state := next, history := [next]\<rparr>"

text \<open>
  \<^verbatim>\<open>scrubToIndex(index)\<close>: \<^verbatim>\<open>historyRef.current[index]\<close> is \<^verbatim>\<open>undefined\<close> when the index
  is not the index of an element, and then the callback returns at once.
\<close>

definition scrubToIndex :: "int \<Rightarrow> TimeEvolution \<Rightarrow> TimeEvolution" where
  "scrubToIndex index s =
     (if 0 \<le> index \<and> index < int (length (historyRef s))
      then (let target = historyRef s ! nat index
            in s\<lparr>running := False, stateRef := target, state := target\<rparr>)
      else s)"

text \<open>
  \<^verbatim>\<open>clamp(v, min, max)\<close>, as the other copy of the hook defines it:
  \<^verbatim>\<open>Math.max(min, Math.min(max, v))\<close>.
\<close>

definition clamp :: "int \<Rightarrow> int \<Rightarrow> int \<Rightarrow> int" where
  "clamp v lo hi = max lo (min hi v)"

section \<open>Gates on the Bloch vector\<close>

text \<open>
  A circuit gate as the visualizers read it: the gate symbol is a string, the qubit, the
  target and the angle may be absent.
\<close>

record CircuitGate =
  gate :: string
  qubit :: "nat option"
  target :: "nat option"
  angle :: "jsnum option"

text \<open>The rotation of the \<open>S\<close> and \<open>T\<close> cases: \<^verbatim>\<open>{ x: x * ca - y * sa, y: x * sa + y * ca, z }\<close>.\<close>

definition rotateXY :: "jsnum \<Rightarrow> BlochVector \<Rightarrow> BlochVector" where
  "rotateXY a v =
     (let ca = jcos a; sa = jsin a
      in \<lparr>vx = vx v * ca - vy v * sa, vy = vx v * sa + vy v * ca, vz = vz v\<rparr>)"

text \<open>\<^verbatim>\<open>applyGate\<close> of \<^verbatim>\<open>routes/QasmVisualizer.tsx\<close> (the OpenQASM visualizer).\<close>

definition applyGate :: "BlochVector \<Rightarrow> CircuitGate \<Rightarrow> BlochVector" where
  "applyGate v g =
     (let x = vx v; y = vy v; z = vz v in
      if gate g = ''H'' then \<lparr>vx = z, vy = y, vz = x\<rparr>
      else if gate g = ''X'' then \<lparr>vx = x, vy = - y, vz = - z\<rparr>
      else if gate g = ''Y'' then \<lparr>vx = - x, vy = y, vz = - z\<rparr>
      else if gate g = ''Z'' then \<lparr>vx = - x, vy = - y, vz = z\<rparr>
      else if gate g = ''S'' then rotateXY (Fin (pi / 2)) v
      else if gate g = ''T'' then rotateXY (Fin (pi / 4)) v
      else v)"

text \<open>\<^verbatim>\<open>applyGateToBloch\<close> and \<^verbatim>\<open>applyDecoherence\<close> of the JSON (Qiskit) visualizer.\<close>

definition applyGateToBloch :: "BlochVector \<Rightarrow> CircuitGate \<Rightarrow> BlochVector" where
  "applyGateToBloch v g =
     (let x = vx v; y = vy v; z = vz v in
      if gate g = ''H'' then \<lparr>vx = z, vy = y, vz = x\<rparr>
      else if gate g = ''X'' then \<lparr>vx = x, vy = - y, vz = - z\<rparr>
      else if gate g = ''Y'' then \<lparr>vx = - x, vy = y, vz = - z\<rparr>
      else if gate g = ''Z'' then \<lparr>vx = - x, vy = - y, vz = z\<rparr>
      else if gate g = ''S'' then rotateXY (Fin (pi / 2)) v
      else if gate g = ''T'' then rotateXY (Fin (pi / 4)) v
      else if gate g = ''CNOT'' then \<lparr>vx = x * Fin 0.7, vy = y * Fin 0.7, vz = z * Fin 0.7\<rparr>
      else v)"

definition applyDecoherence :: "BlochVector \<Rightarrow> jsnum \<Rightarrow> BlochVector" where
  "applyDecoherence v amount =
     (let factor = Fin 1 - amount
      in \<lparr>vx = vx v * factor, vy = vy v * factor,
          vz = vz v * (Fin 1 - amount / Fin 2) + amount / Fin 2\<rparr>)"

text \<open>
  The body of the step loop of the JSON visualizer for one gate: the gate, the decoherence
  pass with the gate-noise strength, and the renormalisation when the length exceeds 1.
  A gate that touches qubit 0 neither as its qubit nor as its target is skipped.
\<close>

definition renormIfLong :: "BlochVector \<Rightarrow> BlochVector" where
  "renormIfLong v =
     (let L = blochLength v
      in if Fin 1 < L then \<lparr>vx = vx v / L, vy = vy v / L, vz = vz v / L\<rparr> else v)"

definition qiskitStep :: "jsnum \<Rightarrow> BlochVector \<Rightarrow> CircuitGate \<Rightarrow> BlochVector" where
  "qiskitStep gateNoise v g =
     (if (case qubit g of None \<Rightarrow> 0 | Some q \<Rightarrow> q) = 0 \<or> target g = Some 0
      then renormIfLong (applyDecoherence (applyGateToBloch v g) gateNoise)
      else v)"

text \<open>
  \<^verbatim>\<open>for (let i = 0; i < stepIdx && i < gates.length; i++)\<close> from the state
  \<^verbatim>\<open>{x: 0, y: 0, z: 1}\<close>.
\<close>

definition qiskitVec :: "jsnum \<Rightarrow> CircuitGate list \<Rightarrow> nat \<Rightarrow> BlochVector" where
  "qiskitVec gateNoise gates stepIdx =
     foldl (qiskitStep gateNoise) \<lparr>vx = Fin 0, vy = Fin 0, vz = Fin 1\<rparr> (take stepIdx gates)"

section \<open>The structured (JSON) circuit source\<close>




section \<open>The OpenQASM text parser\<close>


definition isDigit :: "char \<Rightarrow> bool" where
  "isDigit c = (let n = (of_char c :: nat) in 48 \<le> n \<and> n \<le> 57)"






fun splitNl :: "string \<Rightarrow> string list" where
  "splitNl [] = [[]]"
| "splitNl (c # cs) =
     (if c = CHR 0x0A then [] # splitNl cs
      else (case splitNl cs of [] \<Rightarrow> [[c]] | l # ls \<Rightarrow> (c # l) # ls))"





text \<open>
  \<^verbatim>\<open>+m[1]\<close>: the number a string of digits denotes (a natural number; the source's
  double is the same number below \<open>2 ^ 53\<close>).
\<close>

definition digitVal :: "char \<Rightarrow> nat" where
  "digitVal c = of_char c - 48"










section \<open>The Bell endpoint\<close>


text \<open>The decimal digits of a natural number.\<close>

definition digitChar :: "nat \<Rightarrow> char" where
  "digitChar d = char_of (48 + d)"

fun digitsOf :: "nat \<Rightarrow> string" where
  "digitsOf n = (if n < 10 then [digitChar n] else digitsOf (n div 10) @ [digitChar (n mod 10)])"

declare digitsOf.simps [simp del]








section \<open>Concrete inputs\<close>

text \<open>The presets \<^verbatim>\<open>plus\<close> and \<^verbatim>\<open>zero\<close> of \<^verbatim>\<open>PRESET_VECTORS\<close>, and a noise setting with every channel off.\<close>

definition plusVec :: BlochVector where
  "plusVec = \<lparr>vx = Fin 1, vy = Fin 0, vz = Fin 0\<rparr>"

definition zeroVec :: BlochVector where
  "zeroVec = \<lparr>vx = Fin 0, vy = Fin 0, vz = Fin 1\<rparr>"

definition noNoise :: NoiseParams where
  "noNoise = \<lparr>depolarizing = Fin 0, phaseFlip = Fin 0, bitFlip = Fin 0,
              amplitudeDamping = Fin 0, speed = Fin 1\<rparr>"

text \<open>A running scheduler whose history holds two snapshots and whose current vector is the first.\<close>

definition scrubDemo :: TimeEvolution where
  "scrubDemo = \<lparr>state = zeroVec, history = [zeroVec, plusVec], running = True,
                stateRef = zeroVec, historyRef = [zeroVec, plusVec], noiseRef = noNoise,
                lastTsRef = 0\<rparr>"

section \<open>The stages of the stepper\<close>

text \<open>
  The blocks of \<^verbatim>\<open>applyNoiseStep\<close>, one function each, on the triple \<open>(x, y, z)\<close>
  of its local variables: the precession, the four channels, the safety clamp and the
  final \<^verbatim>\<open>|| 0\<close>. The stepper is proved below to be their composition; the proofs about
  the stepper go stage by stage.
\<close>

type_synonym triple = "jsnum \<times> jsnum \<times> jsnum"

definition precess :: "jsnum \<Rightarrow> jsnum \<Rightarrow> triple \<Rightarrow> triple" where
  "precess rateMultiplier dt t =
     (case t of (x, y, z) \<Rightarrow>
        (let theta = Fin 5 * rateMultiplier * dt
         in (x * jcos theta - y * jsin theta, x * jsin theta + y * jcos theta, z)))"

definition depolarize :: "jsnum \<Rightarrow> jsnum \<Rightarrow> jsnum \<Rightarrow> triple \<Rightarrow> triple" where
  "depolarize g rateMultiplier dt t =
     (case t of (x, y, z) \<Rightarrow>
        if Fin 0 < g
        then (let factor = jexp (- (g * Fin 2 * rateMultiplier) * dt)
              in (x * factor, y * factor, z * factor))
        else (x, y, z))"

definition ampDamp :: "jsnum \<Rightarrow> jsnum \<Rightarrow> jsnum \<Rightarrow> triple \<Rightarrow> triple" where
  "ampDamp g rateMultiplier dt t =
     (case t of (x, y, z) \<Rightarrow>
        if Fin 0 < g
        then (let gamma1 = g * Fin 1.5 * rateMultiplier;
                  factorXY = jexp (- gamma1 * dt / Fin 2);
                  factorZ = jexp (- gamma1 * dt)
              in (x * factorXY, y * factorXY, Fin 1 - (Fin 1 - z) * factorZ))
        else (x, y, z))"

definition phaseDamp :: "jsnum \<Rightarrow> jsnum \<Rightarrow> jsnum \<Rightarrow> triple \<Rightarrow> triple" where
  "phaseDamp g rateMultiplier dt t =
     (case t of (x, y, z) \<Rightarrow>
        if Fin 0 < g
        then (let factor = jexp (- (g * Fin 3 * rateMultiplier) * dt)
              in (x * factor, y * factor, z))
        else (x, y, z))"

definition bitFlipDamp :: "jsnum \<Rightarrow> jsnum \<Rightarrow> jsnum \<Rightarrow> triple \<Rightarrow> triple" where
  "bitFlipDamp g rateMultiplier dt t =
     (case t of (x, y, z) \<Rightarrow>
        if Fin 0 < g
        then (let factor = jexp (- (g * Fin 2 * rateMultiplier) * dt)
              in (x, y * factor, z * factor))
        else (x, y, z))"

definition safetyClamp :: "triple \<Rightarrow> triple" where
  "safetyClamp t =
     (case t of (x, y, z) \<Rightarrow>
        (let r2 = x * x + y * y + z * z
         in if Fin 1.000001 < r2
            then (let r = jsqrt r2 in (x / r, y / r, z / r))
            else (x, y, z)))"

definition sanitize :: "triple \<Rightarrow> BlochVector" where
  "sanitize t =
     (case t of (x, y, z) \<Rightarrow>
        \<lparr>vx = or_else x (Fin 0), vy = or_else y (Fin 0), vz = or_else z (Fin 0)\<rparr>)"

text \<open>
  A triple of finite numbers in the closed unit ball (the sum of the squares is at most 1);
  a triple with a \<^verbatim>\<open>NaN\<close> or an infinity is not in it.
\<close>

fun inBall :: "triple \<Rightarrow> bool" where
  "inBall (Fin a, Fin b, Fin c) = (a * a + b * b + c * c \<le> 1)"
| "inBall _ = False"


text \<open>
  A vector with a \<^verbatim>\<open>NaN\<close> component, one with a \<^verbatim>\<open>NaN\<close> and an infinite component, and
  a scheduler that holds the first.
\<close>

definition nanVec :: BlochVector where
  "nanVec = \<lparr>vx = NaN, vy = Fin 0, vz = Fin 0\<rparr>"

definition nanInfVec :: BlochVector where
  "nanInfVec = \<lparr>vx = NaN, vy = Fin 0, vz = PInf\<rparr>"

definition nanDemo :: TimeEvolution where
  "nanDemo = \<lparr>state = nanVec, history = [nanVec], running = True,
              stateRef = nanVec, historyRef = [nanVec], noiseRef = noNoise, lastTsRef = 0\<rparr>"

text \<open>The gates \<open>X\<close>, \<open>Z\<close> and \<open>H\<close> on qubit 0.\<close>

definition gateX :: CircuitGate where
  "gateX = \<lparr>gate = ''X'', qubit = Some 0, target = None, angle = None\<rparr>"
definition gateZ :: CircuitGate where
  "gateZ = \<lparr>gate = ''Z'', qubit = Some 0, target = None, angle = None\<rparr>"
definition gateH :: CircuitGate where
  "gateH = \<lparr>gate = ''H'', qubit = Some 0, target = None, angle = None\<rparr>"

section \<open>Notions for the statements about the Bell endpoint and the parsers\<close>





chapter \<open>Properties\<close>

section \<open>Bell and GHZ samplers\<close>

lemma simulateBell_loop_counts:
  "c01 (simulateBell_loop rnd shots i c) = c01 c \<and>
   c10 (simulateBell_loop rnd shots i c) = c10 c \<and>
   c00 (simulateBell_loop rnd shots i c) + c11 (simulateBell_loop rnd shots i c)
     = c00 c + c11 c + max 0 (shots - int i)"
proof (induction rnd shots i c rule: simulateBell_loop.induct)
  case (1 rnd shots i counts)
  show ?case
  proof (cases "int i < shots")
    case True
    with 1 show ?thesis
      by (subst (1 2 3 4) simulateBell_loop.simps) (simp add: max_def)
  next
    case False
    then show ?thesis
      by (subst (1 2 3 4) simulateBell_loop.simps) simp
  qed
qed

lemma simulateGhz_loop_counts:
  "c001 (simulateGhz_loop rnd shots i c) = c001 c \<and>
   c010 (simulateGhz_loop rnd shots i c) = c010 c \<and>
   c011 (simulateGhz_loop rnd shots i c) = c011 c \<and>
   c100 (simulateGhz_loop rnd shots i c) = c100 c \<and>
   c101 (simulateGhz_loop rnd shots i c) = c101 c \<and>
   c110 (simulateGhz_loop rnd shots i c) = c110 c \<and>
   c000 (simulateGhz_loop rnd shots i c) + c111 (simulateGhz_loop rnd shots i c)
     = c000 c + c111 c + max 0 (shots - int i)"
proof (induction rnd shots i c rule: simulateGhz_loop.induct)
  case (1 rnd shots i counts)
  show ?case
  proof (cases "int i < shots")
    case True
    with 1 show ?thesis
      by (subst (1 2 3 4 5 6 7 8) simulateGhz_loop.simps) (simp add: max_def)
  next
    case False
    then show ?thesis
      by (subst (1 2 3 4 5 6 7 8) simulateGhz_loop.simps) simp
  qed
qed

text \<open>
  Claim C3. For every shot count and every sequence of draws, \<^verbatim>\<open>simulateBell\<close> leaves the
  keys \<^verbatim>\<open>"01"\<close> and \<^verbatim>\<open>"10"\<close> at 0 and the keys \<^verbatim>\<open>"00"\<close> and \<^verbatim>\<open>"11"\<close> sum to the
  number of shots; \<^verbatim>\<open>simulateGhz\<close> leaves the six mixed keys at 0 and \<^verbatim>\<open>"000"\<close> and
  \<^verbatim>\<open>"111"\<close> sum to the number of shots. The loop runs once per shot, so for a count
  \<open>shots \<ge> 0\<close> the sum \<open>max 0 shots\<close> is \<open>shots\<close>; a negative argument runs no pass.
\<close>

theorem bell_ghz_support_and_conservation:
  "c01 (simulateBell rnd shots) = 0 \<and> c10 (simulateBell rnd shots) = 0 \<and>
   c00 (simulateBell rnd shots) + c11 (simulateBell rnd shots) = max 0 shots \<and>
   c001 (simulateGhz rnd shots) = 0 \<and> c010 (simulateGhz rnd shots) = 0 \<and>
   c011 (simulateGhz rnd shots) = 0 \<and> c100 (simulateGhz rnd shots) = 0 \<and>
   c101 (simulateGhz rnd shots) = 0 \<and> c110 (simulateGhz rnd shots) = 0 \<and>
   c000 (simulateGhz rnd shots) + c111 (simulateGhz rnd shots) = max 0 shots"
  using simulateBell_loop_counts [of rnd shots 0 "\<lparr>c00 = 0, c01 = 0, c10 = 0, c11 = 0\<rparr>"]
    simulateGhz_loop_counts [of rnd shots 0
      "\<lparr>c000 = 0, c001 = 0, c010 = 0, c011 = 0, c100 = 0, c101 = 0, c110 = 0, c111 = 0\<rparr>"]
  by (simp add: simulateBell_def simulateGhz_def)

section \<open>BB84 without an eavesdropper\<close>

lemma bb84_round_no_eve:
  "errors (bb84_round rnd False i s) = errors s \<and>
   (list_all (\<lambda>r. \<not> error r) (rows s) \<longrightarrow>
    list_all (\<lambda>r. \<not> error r) (rows (bb84_round rnd False i s)))"
  by (simp add: bb84_round_def randomBit_def randomBasis_def Let_def split: prod.splits)

lemma bb84_loop_no_eve:
  "list_all (\<lambda>r. \<not> error r) (rows s) \<Longrightarrow>
   errors (bb84_loop rnd False n i s) = errors s \<and>
   list_all (\<lambda>r. \<not> error r) (rows (bb84_loop rnd False n i s))"
proof (induction rnd "False" n i s rule: bb84_loop.induct)
  case (1 rnd n i s)
  show ?case
  proof (cases "int i < n")
    case True
    with 1 bb84_round_no_eve [of rnd i s] show ?thesis
      by (subst (1 2) bb84_loop.simps) simp
  next
    case False
    with 1 show ?thesis
      by (subst (1 2) bb84_loop.simps) simp
  qed
qed

text \<open>
  Claim C2. With \<^verbatim>\<open>withEve = false\<close>, for every number of rounds and every sequence of
  draws, \<^verbatim>\<open>runBb84\<close> returns the error rate 0, its counter \<^verbatim>\<open>errors\<close> ends at 0, and no
  row of the trace is flagged as an error.
\<close>

theorem bb84_no_eve_error_free:
  "errorRate (runBb84 rnd \<lparr>rounds = n, withEve = False\<rparr>) = 0 \<and>
   errors (bb84_run rnd \<lparr>rounds = n, withEve = False\<rparr>) = 0 \<and>
   list_all (\<lambda>r. \<not> error r) (trace (runBb84 rnd \<lparr>rounds = n, withEve = False\<rparr>))"
  using bb84_loop_no_eve [of "\<lparr>drawn = 0, sifted = 0, errors = 0, rows = []\<rparr>" rnd n 0]
  by (simp add: runBb84_def bb84_run_def Let_def)

text \<open>
  The statement is not empty: rounds are sifted without an eavesdropper, and with one the
  same counter does record errors.
\<close>

lemma bb84_no_eve_sifts:
  "siftedKeyLength (runBb84 (\<lambda>i. 0) \<lparr>rounds = 3, withEve = False\<rparr>) = 3"
  by (simp add: runBb84_def bb84_run_def bb84_round_def randomBit_def randomBasis_def Let_def)

lemma bb84_with_eve_can_err:
  "errorRate (runBb84 (\<lambda>i. if i < 2 \<or> i = 4 then 0.1 else 0.9)
     \<lparr>rounds = 1, withEve = True\<rparr>) = 1"
  by (simp add: runBb84_def bb84_run_def bb84_round_def randomBit_def randomBasis_def Let_def)

section \<open>Scrubbing\<close>

text \<open>
  Claim C4, as the code has it. For an index of the history buffer, \<^verbatim>\<open>scrubToIndex\<close> pauses
  the evolution and makes that snapshot the current vector (on such an index the clamp of
  the specification is the index itself); for any other index it returns at once and
  changes nothing, so the evolution keeps running. The history is never changed.
\<close>

theorem scrubToIndex_in_range:
  "(0 \<le> i \<and> i < int (length (historyRef s)) \<longrightarrow>
      running (scrubToIndex i s) = False \<and>
      state (scrubToIndex i s) = historyRef s ! nat (clamp i 0 (int (length (historyRef s)) - 1)) \<and>
      state (scrubToIndex i s) = historyRef s ! nat i \<and>
      stateRef (scrubToIndex i s) = historyRef s ! nat i) \<and>
   (\<not> (0 \<le> i \<and> i < int (length (historyRef s))) \<longrightarrow> scrubToIndex i s = s) \<and>
   historyRef (scrubToIndex i s) = historyRef s \<and> history (scrubToIndex i s) = history s"
  by (simp add: scrubToIndex_def clamp_def Let_def)

theorem scrubToIndex_in_range_witness:
  "(0 \<le> (1::int) \<and> (1::int) < int (length (historyRef scrubDemo))) \<and>
   running (scrubToIndex 1 scrubDemo) = False \<and> state (scrubToIndex 1 scrubDemo) = plusVec \<and>
   \<not> (0 \<le> (7::int) \<and> (7::int) < int (length (historyRef scrubDemo))) \<and>
   scrubToIndex 7 scrubDemo = scrubDemo"
  using scrubToIndex_in_range [of 1 scrubDemo] scrubToIndex_in_range [of 7 scrubDemo]
  by (simp add: scrubDemo_def clamp_def)

text \<open>
  The claim as stated fails outside the buffer: at index 7 of a two-element history the
  evolution is not paused and the current vector is not the clamped snapshot.
\<close>

theorem scrubToIndex_out_of_range_counterexample:
  "running (scrubToIndex 7 scrubDemo) = True \<and>
   state (scrubToIndex 7 scrubDemo)
     \<noteq> historyRef scrubDemo ! nat (clamp 7 0 (int (length (historyRef scrubDemo)) - 1))"
  by (simp add: scrubToIndex_def scrubDemo_def clamp_def plusVec_def zeroVec_def)

section \<open>The noise stepper\<close>

lemma applyNoiseStep_stages:
  "applyNoiseStep v noise dt =
     (let rm = or_else (speed noise) (Fin 1) in
      sanitize (safetyClamp (bitFlipDamp (bitFlip noise) rm dt
        (phaseDamp (phaseFlip noise) rm dt
          (ampDamp (amplitudeDamping noise) rm dt
            (depolarize (depolarizing noise) rm dt
              (precess rm dt (vx v, vy v, vz v))))))))"
  by (simp add: applyNoiseStep_def precess_def depolarize_def ampDamp_def phaseDamp_def
        bitFlipDamp_def safetyClamp_def sanitize_def Let_def split: prod.splits)

lemma Fin_minus [simp]: "Fin a - Fin b = Fin (a - b)"
  by (simp add: minus_jsnum_def)

lemma inBallE:
  assumes "inBall t"
  obtains a b c where "t = (Fin a, Fin b, Fin c)" "a * a + b * b + c * c \<le> 1"
proof -
  obtain x y z where t: "t = (x, y, z)" by (cases t) auto
  from assms t show ?thesis
    by (cases x; cases y; cases z) (auto intro: that)
qed















lemma len2_le_1_iff: "(len2 v \<le> Fin 1) = inBall (vx v, vy v, vz v)"
  by (cases "vx v"; cases "vy v"; cases "vz v") (simp_all add: len2_def)




lemma blochLength_le_1_iff: "(blochLength v \<le> Fin 1) = (len2 v \<le> Fin 1)"
proof (cases "inBall (vx v, vy v, vz v)")
  case True
  then obtain a b c where "(vx v, vy v, vz v) = (Fin a, Fin b, Fin c)" by (rule inBallE)
  then have abc: "vx v = Fin a" "vy v = Fin b" "vz v = Fin c" by simp_all
  have "0 \<le> a * a + b * b + c * c" by simp
  then have "\<not> a * a + b * b + c * c < 0" by linarith
  then show ?thesis by (simp add: blochLength_def len2_def abc)
next
  case False
  then have n: "\<not> len2 v \<le> Fin 1" by (simp add: len2_le_1_iff)
  have "\<not> jsqrt (len2 v) \<le> Fin 1"
  proof (cases "len2 v")
    case (Fin x)
    with n have "1 < x" by simp
    then show ?thesis by (simp add: Fin)
  qed simp_all
  with n show ?thesis by (simp add: blochLength_def)
qed





section \<open>Non-finite numbers in the stepper\<close>

lemma step_nanInf:
  "applyNoiseStep nanInfVec noNoise BASE_DT = \<lparr>vx = Fin 0, vy = Fin 0, vz = PInf\<rparr>"
  by (simp add: applyNoiseStep_def nanInfVec_def noNoise_def BASE_DT_def Let_def or_else_def
        minus_jsnum_def)

lemma step_nan:
  "applyNoiseStep nanVec noNoise BASE_DT = \<lparr>vx = Fin 0, vy = Fin 0, vz = Fin 0\<rparr>"
  by (simp add: applyNoiseStep_def nanVec_def noNoise_def BASE_DT_def Let_def or_else_def
        minus_jsnum_def)

lemma or_else_not_NaN: "\<not> isNaN (or_else x (Fin 0))"
  by (cases x) (simp_all add: or_else_def)

lemma applyNoiseStep_no_NaN:
  "\<not> isNaN (vx (applyNoiseStep v noise dt)) \<and> \<not> isNaN (vy (applyNoiseStep v noise dt)) \<and>
   \<not> isNaN (vz (applyNoiseStep v noise dt))"
  by (simp add: applyNoiseStep_stages sanitize_def Let_def or_else_not_NaN split: prod.splits)

lemma stepTimes_Suc_last:
  "stepTimes (Suc n) noise v = applyNoiseStep (stepTimes n noise v) noise BASE_DT"
  by (induction n arbitrary: v) simp_all

lemma stepsFor_pos: "\<exists>n. stepsFor e = Suc n"
proof -
  have "0 < stepsFor e" by (simp add: stepsFor_def)
  then show ?thesis by (cases "stepsFor e") auto
qed

text \<open>
  Claim C5, as the code has it. The stepper has no rejecting path: for every input it
  returns a vector, and the frame callback appends the stepped vector to the history. What
  the stepper guarantees is that no component of its result is \<^verbatim>\<open>NaN\<close> (the final
  \<^verbatim>\<open>|| 0\<close>), so the vector the callback stores and appends has no \<^verbatim>\<open>NaN\<close> component.
\<close>

theorem stepper_never_rejects:
  "\<not> isNaN (vx (applyNoiseStep v noise dt)) \<and> \<not> isNaN (vy (applyNoiseStep v noise dt)) \<and>
   \<not> isNaN (vz (applyNoiseStep v noise dt)) \<and>
   historyRef (loop ts s) = slice_last MAX_HISTORY (historyRef s @ [stateRef (loop ts s)]) \<and>
   last (historyRef (loop ts s)) = stateRef (loop ts s) \<and>
   \<not> isNaN (vx (stateRef (loop ts s))) \<and> \<not> isNaN (vy (stateRef (loop ts s))) \<and>
   \<not> isNaN (vz (stateRef (loop ts s)))"
proof -
  obtain n where n: "stepsFor (min ((ts - (if lastTsRef s = 0 then ts else lastTsRef s)) / 1000) 0.05) = Suc n"
    using stepsFor_pos by blast
  have st: "stateRef (loop ts s) = applyNoiseStep (stepTimes n (noiseRef s) (stateRef s)) (noiseRef s) BASE_DT"
    using n stepTimes_Suc_last [of n "noiseRef s" "stateRef s"] by (simp add: loop_def Let_def)
  have h: "historyRef (loop ts s) = slice_last MAX_HISTORY (historyRef s @ [stateRef (loop ts s)])"
    by (simp add: loop_def Let_def)
  have l: "last (slice_last MAX_HISTORY (xs @ [x])) = x" for xs :: "BlochVector list" and x
    by (simp add: slice_last_def MAX_HISTORY_def)
  show ?thesis
    using applyNoiseStep_no_NaN [of v noise dt]
      applyNoiseStep_no_NaN [of "stepTimes n (noiseRef s) (stateRef s)" "noiseRef s" BASE_DT]
    by (simp only: h l st) simp
qed

text \<open>
  The claim as stated fails: a scheduler whose current vector has a \<^verbatim>\<open>NaN\<close> component
  is stepped like any other, and the stepped vector enters the history.
\<close>

theorem nan_input_is_stepped_counterexample:
  "isNaN (vx (stateRef nanDemo)) \<and>
   stateRef (loop 16 nanDemo) = \<lparr>vx = Fin 0, vy = Fin 0, vz = Fin 0\<rparr> \<and>
   historyRef (loop 16 nanDemo) = [nanVec, \<lparr>vx = Fin 0, vy = Fin 0, vz = Fin 0\<rparr>]"
proof -
  have "stepsFor (min ((16 - 16) / 1000) 0.05) = Suc 0"
    by (simp add: stepsFor_def)
  then show ?thesis
    by (simp add: loop_def nanDemo_def Let_def step_nan slice_last_def MAX_HISTORY_def nanVec_def [symmetric])
       (simp add: nanVec_def)
qed

text \<open>
  Claim C10 says that every result of the stepper is finite. At the input
  \<^verbatim>\<open>{x: NaN, y: 0, z: Infinity}\<close> with every channel off, the squared length is
  \<^verbatim>\<open>NaN\<close>, the clamp's test \<^verbatim>\<open>r2 > 1.000001\<close> is false, and \<^verbatim>\<open>Infinity || 0\<close> is
  \<^verbatim>\<open>Infinity\<close>: the result has an infinite component.
\<close>

theorem nan_inf_input_gives_infinite_output:
  "applyNoiseStep \<lparr>vx = NaN, vy = Fin 0, vz = PInf\<rparr> noNoise BASE_DT
     = \<lparr>vx = Fin 0, vy = Fin 0, vz = PInf\<rparr> \<and>
   \<not> isFinite (vz (applyNoiseStep \<lparr>vx = NaN, vy = Fin 0, vz = PInf\<rparr> noNoise BASE_DT))"
  using step_nanInf by (simp add: nanInfVec_def)

section \<open>Gate involution\<close>

lemma jsnum_neg_neg: "- (- x) = (x :: jsnum)"
  by (cases x) simp_all

lemma applyGate_involution:
  assumes "gate g = ''X'' \<or> gate g = ''Z'' \<or> gate g = ''H''"
  shows "applyGate (applyGate v g) g = v"
  using assms by (auto simp: applyGate_def jsnum_neg_neg)

lemma applyGateToBloch_involution:
  assumes "gate g = ''X'' \<or> gate g = ''Z'' \<or> gate g = ''H''"
  shows "applyGateToBloch (applyGateToBloch v g) g = v"
  using assms by (auto simp: applyGateToBloch_def jsnum_neg_neg)

lemma applyGateToBloch_inBall:
  assumes "gate g = ''X'' \<or> gate g = ''Z'' \<or> gate g = ''H''" "len2 v \<le> Fin 1"
  shows "len2 (applyGateToBloch v g) \<le> Fin 1"
proof -
  from assms(2) have "inBall (vx v, vy v, vz v)" by (simp add: len2_le_1_iff)
  then obtain a b c where "(vx v, vy v, vz v) = (Fin a, Fin b, Fin c)" "a * a + b * b + c * c \<le> 1"
    by (rule inBallE)
  then have "vx v = Fin a" "vy v = Fin b" "vz v = Fin c" "a * a + b * b + c * c \<le> 1" by simp_all
  then show ?thesis using assms(1)
    by (auto simp: applyGateToBloch_def len2_def)
qed

lemma noiseless_pass:
  assumes "len2 v \<le> Fin 1"
  shows "renormIfLong (applyDecoherence v (Fin 0)) = v"
proof -
  from assms have "inBall (vx v, vy v, vz v)" by (simp add: len2_le_1_iff)
  then obtain a b c where "(vx v, vy v, vz v) = (Fin a, Fin b, Fin c)" "a * a + b * b + c * c \<le> 1"
    by (rule inBallE)
  then have abc: "vx v = Fin a" "vy v = Fin b" "vz v = Fin c" by simp_all
  have d: "applyDecoherence v (Fin 0) = v"
    by (simp add: applyDecoherence_def abc Let_def)
  have "\<not> Fin 1 < blochLength v"
  proof -
    from assms have "blochLength v \<le> Fin 1" by (simp add: blochLength_le_1_iff)
    then show ?thesis by (cases "blochLength v") auto
  qed
  then show ?thesis by (simp add: d renormIfLong_def Let_def)
qed

text \<open>
  Claim C7. For each of the gates \<open>X\<close>, \<open>Z\<close> and \<open>H\<close>, applying the gate twice returns
  the original vector exactly: for \<^verbatim>\<open>applyGate\<close> and \<^verbatim>\<open>applyGateToBloch\<close> on every
  vector, and for the full step of the JSON visualizer (gate, decoherence pass with gate
  noise 0, renormalisation) on every vector of length at most 1.
\<close>

theorem gate_involution:
  assumes "gate g = ''X'' \<or> gate g = ''Z'' \<or> gate g = ''H''"
  shows "applyGate (applyGate v g) g = v \<and>
         applyGateToBloch (applyGateToBloch v g) g = v \<and>
         (len2 v \<le> Fin 1 \<longrightarrow> qiskitStep (Fin 0) (qiskitStep (Fin 0) v g) g = v)"
proof -
  have "qiskitStep (Fin 0) (qiskitStep (Fin 0) v g) g = v" if ball: "len2 v \<le> Fin 1"
  proof (cases "(case qubit g of None \<Rightarrow> 0 | Some q \<Rightarrow> q) = 0 \<or> target g = Some 0")
    case True
    have 1: "qiskitStep (Fin 0) v g = applyGateToBloch v g"
      using True noiseless_pass [OF applyGateToBloch_inBall [OF assms ball]]
      by (simp add: qiskitStep_def)
    have "len2 (applyGateToBloch (applyGateToBloch v g) g) \<le> Fin 1"
      using ball by (simp add: applyGateToBloch_involution [OF assms])
    then have 2: "qiskitStep (Fin 0) (applyGateToBloch v g) g
        = applyGateToBloch (applyGateToBloch v g) g"
      using True noiseless_pass [of "applyGateToBloch (applyGateToBloch v g) g"]
      by (simp add: qiskitStep_def)
    show ?thesis by (simp add: 1 2 applyGateToBloch_involution [OF assms])
  next
    case False
    then show ?thesis by (simp add: qiskitStep_def)
  qed
  then show ?thesis
    by (simp add: applyGate_involution [OF assms] applyGateToBloch_involution [OF assms])
qed

theorem gate_involution_witness:
  "(gate gateX = ''X'' \<or> gate gateX = ''Z'' \<or> gate gateX = ''H'') \<and>
   (gate gateZ = ''X'' \<or> gate gateZ = ''Z'' \<or> gate gateZ = ''H'') \<and>
   (gate gateH = ''X'' \<or> gate gateH = ''Z'' \<or> gate gateH = ''H'') \<and>
   len2 plusVec \<le> Fin 1 \<and>
   applyGate (applyGate plusVec gateX) gateX = plusVec \<and>
   applyGateToBloch (applyGateToBloch plusVec gateZ) gateZ = plusVec \<and>
   qiskitStep (Fin 0) (qiskitStep (Fin 0) plusVec gateX) gateX = plusVec \<and>
   qiskitStep (Fin 0) (qiskitStep (Fin 0) plusVec gateZ) gateZ = plusVec \<and>
   qiskitStep (Fin 0) (qiskitStep (Fin 0) plusVec gateH) gateH = plusVec \<and>
   qiskitStep (Fin 0) plusVec gateH = zeroVec"
proof -
  have x: "gate gateX = ''X'' \<or> gate gateX = ''Z'' \<or> gate gateX = ''H''"
    and z: "gate gateZ = ''X'' \<or> gate gateZ = ''Z'' \<or> gate gateZ = ''H''"
    and h: "gate gateH = ''X'' \<or> gate gateH = ''Z'' \<or> gate gateH = ''H''"
    by (simp_all add: gateX_def gateZ_def gateH_def)
  have b: "len2 plusVec \<le> Fin 1" by (simp add: plusVec_def len2_def)
  have s: "qiskitStep (Fin 0) plusVec gateH = zeroVec"
    by (simp add: qiskitStep_def gateH_def applyGateToBloch_def applyDecoherence_def
          renormIfLong_def blochLength_def len2_def plusVec_def zeroVec_def Let_def)
  from gate_involution [OF x, of plusVec] gate_involution [OF z, of plusVec]
    gate_involution [OF h, of plusVec] x z h b s
  show ?thesis by simp
qed

section \<open>The Bell endpoint\<close>

lemma digitChar_props:
  assumes "d < 10"
  shows "isDigit (digitChar d)" "digitVal (digitChar d) = d"
  using assms by (simp_all add: isDigit_def digitChar_def digitVal_def)

lemma digitsOf_nonempty: "digitsOf n \<noteq> []"
  by (subst digitsOf.simps) simp

lemma digitsOf_all_digits: "c \<in> set (digitsOf n) \<Longrightarrow> isDigit c"
proof (induction n arbitrary: c rule: digitsOf.induct)
  case (1 n)
  show ?case
  proof (cases "n < 10")
    case True
    with 1(2) show ?thesis
      by (subst (asm) digitsOf.simps) (simp add: digitChar_props)
  next
    case False
    from 1(2) have "c \<in> set (digitsOf (n div 10)) \<or> c = digitChar (n mod 10)"
      by (subst (asm) digitsOf.simps) (auto simp: False)
    with 1(1) [OF False] show ?thesis
      by (auto simp: digitChar_props)
  qed
qed




lemma hd_digitsOf_plain:
  "isDigit (hd (digitsOf n @ r))"
  using digitsOf_nonempty [of n] digitsOf_all_digits [of "hd (digitsOf n)" n]
  by (cases "digitsOf n") auto








section \<open>Parser tolerance\<close>



lemma splitNl_nonempty: "splitNl s \<noteq> []"
  by (induction s) (auto split: list.splits)









end
